theory Spec2Isabelle
  imports Main
begin

section \<open>Shared types (types/index.ts)\<close>

text \<open>A JavaScript \<open>Error\<close> value, reduced to its message text.\<close>

datatype error = Error string

subsection \<open>CodeChange\<close>

datatype operation = create | update | delete

record CodeChange =
  path :: string
  content :: string
  operation :: operation

section \<open>AgentController (agent-controller.ts)\<close>

datatype SpecPhase = requirements | design | tasks | implementation

record SpecWorkflowState =
  specName :: string
  currentPhase :: SpecPhase
  requirementsApproved :: bool
  designApproved :: bool
  tasksApproved :: bool

text \<open>
  Field names are kept; where two interfaces share a name, or a name is taken in HOL,
  the field carries a prefix or suffix (\<open>change_id\<close> and \<open>hook_id\<close> for \<open>id\<close>,
  \<open>output_text\<close> and \<open>error_text\<close> for \<open>output\<close> and \<open>error\<close>, \<open>ctx_message\<close>
  for the \<open>message\<close> of a context). Dates are clock readings in milliseconds.
\<close>

record PendingCodeChange =
  change_id :: string
  changes :: "CodeChange list"
  approved :: bool
  timestamp :: nat

text \<open>
  The session owns the workflow map and the queue of pending changes; the source's
  \<open>Map<string, SpecWorkflowState>\<close> is a partial map, the array a list.
\<close>

record Session =
  session_id :: string
  startTime :: nat
  specWorkflows :: "string \<rightharpoonup> SpecWorkflowState"
  pendingChanges :: "PendingCodeChange list"

subsection \<open>Spec workflow state machine\<close>

text \<open>
  \<open>getOrCreateWorkflowState\<close> stores a fresh state on first reference to a name, so it
  returns the state together with the updated session.
\<close>

definition getOrCreateWorkflowState :: "string \<Rightarrow> Session \<Rightarrow> SpecWorkflowState \<times> Session" where
  "getOrCreateWorkflowState name s =
     (case specWorkflows s name of
        Some st \<Rightarrow> (st, s)
      | None \<Rightarrow>
          (let st = \<lparr> specName = name, currentPhase = requirements,
                      requirementsApproved = False, designApproved = False,
                      tasksApproved = False \<rparr>
           in (st, s\<lparr> specWorkflows := (specWorkflows s)(name \<mapsto> st) \<rparr>)))"

text \<open>Writing a field of the state object held in the map.\<close>

definition store_state :: "string \<Rightarrow> SpecWorkflowState \<Rightarrow> Session \<Rightarrow> Session" where
  "store_state name st s = s\<lparr> specWorkflows := (specWorkflows s)(name \<mapsto> st) \<rparr>"

definition getWorkflowPhase :: "string \<Rightarrow> Session \<Rightarrow> SpecPhase \<times> Session" where
  "getWorkflowPhase name s =
     (let (st, s1) = getOrCreateWorkflowState name s in (currentPhase st, s1))"

definition canTransitionToPhase :: "string \<Rightarrow> SpecPhase \<Rightarrow> Session \<Rightarrow> bool \<times> Session" where
  "canTransitionToPhase name targetPhase s =
     (let (st, s1) = getOrCreateWorkflowState name s
      in (case targetPhase of
            requirements \<Rightarrow> (True, s1)
          | design \<Rightarrow> (requirementsApproved st, s1)
          | tasks \<Rightarrow> (designApproved st, s1)
          | implementation \<Rightarrow> (tasksApproved st, s1)))"

definition transitionToPhase :: "string \<Rightarrow> SpecPhase \<Rightarrow> Session \<Rightarrow> bool \<times> Session" where
  "transitionToPhase name targetPhase s =
     (let (ok, s1) = canTransitionToPhase name targetPhase s
      in if \<not> ok then (False, s1)
         else (let (st, s2) = getOrCreateWorkflowState name s1
               in (True, store_state name (st\<lparr> currentPhase := targetPhase \<rparr>) s2)))"

definition approveCurrentPhase :: "string \<Rightarrow> Session \<Rightarrow> bool \<times> Session" where
  "approveCurrentPhase name s =
     (let (st, s1) = getOrCreateWorkflowState name s
      in (case currentPhase st of
            requirements \<Rightarrow>
              (True, store_state name (st\<lparr> requirementsApproved := True, currentPhase := design \<rparr>) s1)
          | design \<Rightarrow>
              (True, store_state name (st\<lparr> designApproved := True, currentPhase := tasks \<rparr>) s1)
          | tasks \<Rightarrow>
              (True, store_state name (st\<lparr> tasksApproved := True, currentPhase := implementation \<rparr>) s1)
          | implementation \<Rightarrow> (True, s1)))"

definition resetPhaseApproval :: "string \<Rightarrow> SpecPhase \<Rightarrow> Session \<Rightarrow> Session" where
  "resetPhaseApproval name phase s =
     (let (st, s1) = getOrCreateWorkflowState name s
      in (case phase of
            requirements \<Rightarrow>
              store_state name (st\<lparr> requirementsApproved := False, designApproved := False,
                                     tasksApproved := False, currentPhase := requirements \<rparr>) s1
          | design \<Rightarrow>
              (let st1 = st\<lparr> designApproved := False, tasksApproved := False \<rparr>
               in store_state name
                    (if currentPhase st1 \<noteq> requirements then st1\<lparr> currentPhase := design \<rparr> else st1) s1)
          | tasks \<Rightarrow>
              (let st1 = st\<lparr> tasksApproved := False \<rparr>
               in store_state name
                    (if currentPhase st1 = implementation then st1\<lparr> currentPhase := tasks \<rparr> else st1) s1)
          | implementation \<Rightarrow> s1))"

definition isPhaseApproved :: "string \<Rightarrow> SpecPhase \<Rightarrow> Session \<Rightarrow> bool \<times> Session" where
  "isPhaseApproved name phase s =
     (let (st, s1) = getOrCreateWorkflowState name s
      in (case phase of
            requirements \<Rightarrow> (requirementsApproved st, s1)
          | design \<Rightarrow> (designApproved st, s1)
          | tasks \<Rightarrow> (tasksApproved st, s1)
          | implementation \<Rightarrow> (tasksApproved st, s1)))"

text \<open>The state the controller holds for a name once the name has been referenced.\<close>

definition workflow_of :: "string \<Rightarrow> Session \<Rightarrow> SpecWorkflowState" where
  "workflow_of name s = fst (getOrCreateWorkflowState name s)"

text \<open>
  The session a new controller starts with; its id and start time come from the clock
  and the random number generator and play no part below.
\<close>

definition initial_session :: Session where
  "initial_session =
     \<lparr> session_id = ''session-0-start'', startTime = 0,
       specWorkflows = Map.empty, pendingChanges = [] \<rparr>"

text \<open>The session after a specification has been approved through all three gates.\<close>

definition at_implementation :: Session where
  "at_implementation =
     snd (approveCurrentPhase ''feature''
       (snd (approveCurrentPhase ''feature''
         (snd (approveCurrentPhase ''feature'' initial_session)))))"

subsection \<open>Code change approval gate\<close>

text \<open>
  The filesystem sink is the injected \<open>IFileSystemAdapter\<close>: an arbitrary implementation
  acting on a state \<open>'fs\<close>. A call either resolves (\<open>Inr\<close>) or rejects (\<open>Inl\<close>), and
  may change the state in both cases.
\<close>

record 'fs IFileSystemAdapter =
  fs_mkdir :: "string \<Rightarrow> 'fs \<Rightarrow> (error + unit) \<times> 'fs"
  fs_writeFile :: "string \<Rightarrow> string \<Rightarrow> 'fs \<Rightarrow> (error + unit) \<times> 'fs"
  fs_delete :: "string \<Rightarrow> 'fs \<Rightarrow> (error + unit) \<times> 'fs"

definition getPendingChanges :: "Session \<Rightarrow> PendingCodeChange list" where
  "getPendingChanges s = filter (\<lambda>c. \<not> approved c) (pendingChanges s)"

text \<open>\<open>find\<close> returns the first entry with the id; its flag is set in place.\<close>

fun approve_first :: "string \<Rightarrow> PendingCodeChange list \<Rightarrow> PendingCodeChange list" where
  "approve_first changeId [] = []"
| "approve_first changeId (c # cs) =
     (if change_id c = changeId then c\<lparr> approved := True \<rparr> # cs
      else c # approve_first changeId cs)"

definition approveChange :: "string \<Rightarrow> Session \<Rightarrow> bool \<times> Session" where
  "approveChange changeId s =
     (case find (\<lambda>c. change_id c = changeId) (pendingChanges s) of
        None \<Rightarrow> (False, s)
      | Some _ \<Rightarrow> (True, s\<lparr> pendingChanges := approve_first changeId (pendingChanges s) \<rparr>))"

text \<open>
  The body of the inner loop of \<open>applyApprovedChanges\<close>: one edit inside its own
  \<open>try\<close>. A rejected sink call is swallowed and the edit is not recorded as applied.
\<close>

definition apply_change ::
  "'fs IFileSystemAdapter \<Rightarrow> CodeChange \<Rightarrow> CodeChange list \<times> 'fs \<Rightarrow> CodeChange list \<times> 'fs" where
  "apply_change fs change acc =
     (case acc of (appliedChanges, w) \<Rightarrow>
        (case operation change of
           create \<Rightarrow>
             (case fs_writeFile fs (path change) (content change) w of
                (Inr _, w') \<Rightarrow> (appliedChanges @ [change], w')
              | (Inl _, w') \<Rightarrow> (appliedChanges, w'))
         | update \<Rightarrow>
             (case fs_writeFile fs (path change) (content change) w of
                (Inr _, w') \<Rightarrow> (appliedChanges @ [change], w')
              | (Inl _, w') \<Rightarrow> (appliedChanges, w'))
         | delete \<Rightarrow>
             (case fs_delete fs (path change) w of
                (Inr _, w') \<Rightarrow> (appliedChanges @ [change], w')
              | (Inl _, w') \<Rightarrow> (appliedChanges, w'))))"

fun apply_changes ::
  "'fs IFileSystemAdapter \<Rightarrow> CodeChange list \<Rightarrow> CodeChange list \<times> 'fs \<Rightarrow> CodeChange list \<times> 'fs" where
  "apply_changes fs [] acc = acc"
| "apply_changes fs (change # rest) acc = apply_changes fs rest (apply_change fs change acc)"

text \<open>The outer loop: an entry that is not approved is skipped by \<open>continue\<close>.\<close>

fun apply_pending ::
  "'fs IFileSystemAdapter \<Rightarrow> PendingCodeChange list \<Rightarrow> CodeChange list \<times> 'fs \<Rightarrow> CodeChange list \<times> 'fs" where
  "apply_pending fs [] acc = acc"
| "apply_pending fs (pending # rest) acc =
     (if \<not> approved pending then apply_pending fs rest acc
      else apply_pending fs rest (apply_changes fs (changes pending) acc))"

text \<open>
  One uninterrupted run of \<open>applyApprovedChanges\<close>: the applied edits and the sink's
  final state, and the session with the approved entries filtered out.
\<close>

definition applyApprovedChanges ::
  "'fs IFileSystemAdapter \<Rightarrow> 'fs \<Rightarrow> Session \<Rightarrow> (CodeChange list \<times> 'fs) \<times> Session" where
  "applyApprovedChanges fs w s =
     (apply_pending fs (pendingChanges s) ([], w),
      s\<lparr> pendingChanges := filter (\<lambda>c. \<not> approved c) (pendingChanges s) \<rparr>)"

text \<open>\<open>findIndex\<close> and \<open>splice(index, 1)\<close>: the first entry with the id is removed.\<close>

fun remove_first :: "string \<Rightarrow> PendingCodeChange list \<Rightarrow> PendingCodeChange list" where
  "remove_first changeId [] = []"
| "remove_first changeId (c # cs) =
     (if change_id c = changeId then cs else c # remove_first changeId cs)"

definition rejectChange :: "string \<Rightarrow> Session \<Rightarrow> bool \<times> Session" where
  "rejectChange changeId s =
     (if \<not> list_ex (\<lambda>c. change_id c = changeId) (pendingChanges s) then (False, s)
      else (True, s\<lparr> pendingChanges := remove_first changeId (pendingChanges s) \<rparr>))"

text \<open>
  \<open>queueCodeChanges\<close> takes the id that \<open>generateChangeId\<close> produced and the current
  time; both come from the controller's counter and the clock.
\<close>

definition queueCodeChanges :: "string \<Rightarrow> nat \<Rightarrow> CodeChange list \<Rightarrow> Session \<Rightarrow> string \<times> Session" where
  "queueCodeChanges newId now cs s =
     (let pendingChange = \<lparr> change_id = newId, changes = cs, approved = False, timestamp = now \<rparr>
      in (change_id pendingChange, s\<lparr> pendingChanges := pendingChanges s @ [pendingChange] \<rparr>))"

text \<open>
  A sink that records every call it receives, in order, and rejects exactly the calls
  selected by \<open>fails\<close>. Its state is the list of calls received so far.
\<close>

datatype fs_call = WriteFile string string | Delete string | Mkdir string

definition recording_sink :: "(fs_call \<Rightarrow> bool) \<Rightarrow> (fs_call list) IFileSystemAdapter" where
  "recording_sink fails =
     \<lparr> fs_mkdir = (\<lambda>p calls.
         (if fails (Mkdir p) then Inl (Error ''EACCES'') else Inr (), calls @ [Mkdir p])),
       fs_writeFile = (\<lambda>p c calls.
         (if fails (WriteFile p c) then Inl (Error ''EACCES'') else Inr (), calls @ [WriteFile p c])),
       fs_delete = (\<lambda>p calls.
         (if fails (Delete p) then Inl (Error ''ENOENT'') else Inr (), calls @ [Delete p])) \<rparr>"

text \<open>The sink call that the \<open>switch\<close> of \<open>applyApprovedChanges\<close> issues for an edit.\<close>

definition sink_call :: "CodeChange \<Rightarrow> fs_call" where
  "sink_call change =
     (case operation change of
        create \<Rightarrow> WriteFile (path change) (content change)
      | update \<Rightarrow> WriteFile (path change) (content change)
      | delete \<Rightarrow> Delete (path change))"

section \<open>HookManager (hook-manager.ts)\<close>

subsection \<open>Hook types\<close>

text \<open>
  Hooks are plain objects, read back from JSON without a schema check, so the model
  follows their run-time shape: a type tag is a string, and an optional or possibly
  missing property is an option (\<open>None\<close> is \<open>undefined\<close>).
\<close>

record HookTrigger =
  trigger_type :: string
  pattern :: "string option"

record HookAction =
  action_type :: string
  message :: "string option"
  command :: "string option"
  cwd :: "string option"

record HookConfig =
  hook_id :: string
  name :: string
  trigger :: HookTrigger
  action :: HookAction
  enabled :: bool

record HookResult =
  success :: bool
  output_text :: "string option"
  error_text :: "string option"

record HookContext =
  event :: "string option"
  filePath :: "string option"
  ctx_message :: "string option"
  ctx_specName :: "string option"
  ctx_taskId :: "string option"

text \<open>JavaScript truthiness of an optional string: defined and not empty.\<close>

definition truthy :: "string option \<Rightarrow> bool" where
  "truthy v = (case v of None \<Rightarrow> False | Some t \<Rightarrow> t \<noteq> [])"

text \<open>\<open>String.prototype.trim\<close> on the white space and line terminators of the byte range.\<close>

definition is_js_whitespace :: "char \<Rightarrow> bool" where
  "is_js_whitespace c = (of_char c \<in> {9, 10, 11, 12, 13, 32, 160 :: nat})"

definition js_trim :: "string \<Rightarrow> string" where
  "js_trim t = rev (dropWhile is_js_whitespace (rev (dropWhile is_js_whitespace t)))"

subsection \<open>Collaborators\<close>

text \<open>
  What the manager receives from its host: \<open>JSON.stringify\<close>, the regular expression
  engine (\<open>new RegExp(source).test(text)\<close>, which raises on a malformed source), and the
  promisified \<open>exec\<close>, which resolves with \<open>(stdout, stderr)\<close> or rejects.
\<close>

record 'w runtime =
  json_stringify :: "HookConfig \<Rightarrow> string"
  regex_test :: "string \<Rightarrow> string \<Rightarrow> error + bool"
  execAsync :: "string option \<Rightarrow> string option \<Rightarrow> 'w \<Rightarrow> (error + string \<times> string) \<times> 'w"

datatype log_entry = LogError string "error option" | LogInfo string

text \<open>
  The manager's fields. \<open>hooks\<close> is the \<open>Map\<close> in insertion order; \<open>logged\<close> is the
  sequence of calls the logger has received (the logger itself only prints).
\<close>

record 'w HookManager =
  hm_fs :: "'w IFileSystemAdapter"
  hooks :: "(string \<times> HookConfig) list"
  eventListeners :: "string \<Rightarrow> (HookContext \<Rightarrow> 'w \<Rightarrow> (error + unit) \<times> 'w) list"
  messageSender :: "(string option \<Rightarrow> 'w \<Rightarrow> (error + unit) \<times> 'w) option"
  logged :: "log_entry list"

definition new_HookManager :: "'w IFileSystemAdapter \<Rightarrow> 'w HookManager" where
  "new_HookManager fs =
     \<lparr> hm_fs = fs, hooks = [], eventListeners = (\<lambda>_. []), messageSender = None, logged = [] \<rparr>"

definition setMessageSender ::
  "(string option \<Rightarrow> 'w \<Rightarrow> (error + unit) \<times> 'w) \<Rightarrow> 'w HookManager \<Rightarrow> 'w HookManager" where
  "setMessageSender sender m = m\<lparr> messageSender := Some sender \<rparr>"

definition log_error :: "string \<Rightarrow> error option \<Rightarrow> 'w HookManager \<Rightarrow> 'w HookManager" where
  "log_error text err m = m\<lparr> logged := logged m @ [LogError text err] \<rparr>"

text \<open>\<open>Map.prototype.set\<close>: an existing key keeps its position, a new key goes last.\<close>

fun map_set :: "'k \<Rightarrow> 'v \<Rightarrow> ('k \<times> 'v) list \<Rightarrow> ('k \<times> 'v) list" where
  "map_set k v [] = [(k, v)]"
| "map_set k v ((k', v') # rest) =
     (if k' = k then (k, v) # rest else (k', v') # map_set k v rest)"

definition getHook :: "string \<Rightarrow> 'w HookManager \<Rightarrow> HookConfig option" where
  "getHook hookId m = map_of (hooks m) hookId"

definition listHooks :: "'w HookManager \<Rightarrow> HookConfig list" where
  "listHooks m = map snd (hooks m)"

definition getHookPath :: "string \<Rightarrow> string" where
  "getHookPath hookId = ''.kiro/hooks/'' @ hookId @ ''.json''"

subsection \<open>Registration\<close>

definition validateHook :: "HookConfig \<Rightarrow> error + unit" where
  "validateHook hook =
     (if hook_id hook = [] \<or> length (js_trim (hook_id hook)) = 0
        then Inl (Error ''Hook ID cannot be empty'')
      else if name hook = [] \<or> length (js_trim (name hook)) = 0
        then Inl (Error ''Hook name cannot be empty'')
      else if trigger_type (trigger hook) = []
        then Inl (Error ''Hook trigger is required'')
      else if action_type (action hook) = []
        then Inl (Error ''Hook action is required'')
      else if action_type (action hook) = ''send_message'' \<and> message (action hook) = None
        then Inl (Error ''send_message action requires a message'')
      else if action_type (action hook) = ''execute_command'' \<and> command (action hook) = None
        then Inl (Error ''execute_command action requires a command'')
      else Inr ())"

text \<open>
  \<open>registerHook\<close>: validate, make the directory, write the file, then store the hook in
  the map. The first step that raises ends the call; the manager is changed only by the
  last step.
\<close>

definition registerHook ::
  "'w runtime \<Rightarrow> HookConfig \<Rightarrow> 'w HookManager \<Rightarrow> 'w \<Rightarrow> (error + unit) \<times> 'w HookManager \<times> 'w" where
  "registerHook rt hook m w =
     (case validateHook hook of
        Inl e \<Rightarrow> (Inl e, m, w)
      | Inr _ \<Rightarrow>
          (case fs_mkdir (hm_fs m) ''.kiro/hooks'' w of
             (Inl e, w1) \<Rightarrow> (Inl e, m, w1)
           | (Inr _, w1) \<Rightarrow>
               (case fs_writeFile (hm_fs m) (getHookPath (hook_id hook)) (json_stringify rt hook) w1 of
                  (Inl e, w2) \<Rightarrow> (Inl e, m, w2)
                | (Inr _, w2) \<Rightarrow>
                    (Inr (), m\<lparr> hooks := map_set (hook_id hook) hook (hooks m) \<rparr>, w2))))"

subsection \<open>Glob matching\<close>

definition normalize_separators :: "string \<Rightarrow> string" where
  "normalize_separators t = map (\<lambda>c. if c = CHR 0x5C then CHR ''/'' else c) t"

text \<open>Each of \<open>. + ^ $ { } ( ) | [ ]\<close> is prefixed with a backslash.\<close>

definition escape_regex :: "string \<Rightarrow> string" where
  "escape_regex t = concat (map (\<lambda>c. if c \<in> set ''.+^${}()|[]'' then [CHR 0x5C, c] else [c]) t)"

text \<open>\<open>**\<close> becomes the placeholder character NUL, scanning from the left.\<close>

fun replace_double_star :: "string \<Rightarrow> string" where
  "replace_double_star [] = []"
| "replace_double_star [c] = [c]"
| "replace_double_star (c # d # rest) =
     (if c = CHR ''*'' \<and> d = CHR ''*'' then CHR 0x00 # replace_double_star rest
      else c # replace_double_star (d # rest))"

definition replace_star :: "string \<Rightarrow> string" where
  "replace_star t = concat (map (\<lambda>c. if c = CHR ''*'' then ''[^/]*'' else [c]) t)"

definition replace_placeholder :: "string \<Rightarrow> string" where
  "replace_placeholder t = concat (map (\<lambda>c. if c = CHR 0x00 then ''.*'' else [c]) t)"

definition matchesPattern :: "'w runtime \<Rightarrow> string \<Rightarrow> string \<Rightarrow> error + bool" where
  "matchesPattern rt path_arg pattern_arg =
     (let normalizedPath = normalize_separators path_arg;
          regexPattern = escape_regex (normalize_separators pattern_arg);
          regexPattern = replace_placeholder (replace_star (replace_double_star regexPattern))
      in regex_test rt (''^'' @ regexPattern @ ''$'') normalizedPath)"

subsection \<open>Message interpolation\<close>

text \<open>
  \<open>String.prototype.replace\<close> with a global pattern that matches one literal text and has
  no groups. The replacement is a template: \<open>$$\<close> is a dollar sign, \<open>$&\<close> the matched
  text, \<open>$`\<close> the text before the match and \<open>$'\<close> the text after it; any other
  character stands for itself.
\<close>

fun getSubstitution :: "string \<Rightarrow> string \<Rightarrow> string \<Rightarrow> string \<Rightarrow> string" where
  "getSubstitution matched before after [] = []"
| "getSubstitution matched before after [c] = [c]"
| "getSubstitution matched before after (c # d # rest) =
     (if c = CHR ''$'' \<and> d = CHR ''$'' then CHR ''$'' # getSubstitution matched before after rest
      else if c = CHR ''$'' \<and> d = CHR ''&'' then matched @ getSubstitution matched before after rest
      else if c = CHR ''$'' \<and> d = CHR 0x60 then before @ getSubstitution matched before after rest
      else if c = CHR ''$'' \<and> d = CHR 0x27 then after @ getSubstitution matched before after rest
      else c # getSubstitution matched before after (d # rest))"

text \<open>
  The scan over the subject: \<open>before\<close> is the part of the subject already passed and
  \<open>skip\<close> counts the characters of a match still to pass over.
\<close>

fun replace_scan :: "string \<Rightarrow> string \<Rightarrow> string \<Rightarrow> nat \<Rightarrow> string \<Rightarrow> string" where
  "replace_scan needle template before skip [] = []"
| "replace_scan needle template before skip (c # rest) =
     (if 0 < skip then replace_scan needle template (before @ [c]) (skip - 1) rest
      else if needle \<noteq> [] \<and> take (length needle) (c # rest) = needle
        then getSubstitution needle before (drop (length needle) (c # rest)) template
               @ replace_scan needle template (before @ [c]) (length needle - 1) rest
      else c # replace_scan needle template (before @ [c]) 0 rest)"

definition js_replace_all :: "string \<Rightarrow> string \<Rightarrow> string \<Rightarrow> string" where
  "js_replace_all needle template subject = replace_scan needle template [] 0 subject"

text \<open>One guarded replacement of \<open>interpolateMessage\<close>: skipped when the value is falsy.\<close>

definition substitute :: "string \<Rightarrow> string option \<Rightarrow> string \<Rightarrow> string" where
  "substitute needle v subject =
     (case v of
        None \<Rightarrow> subject
      | Some t \<Rightarrow> if t = [] then subject else js_replace_all needle t subject)"

text \<open>
  A hook read from disk may lack its message; calling \<open>replace\<close> on \<open>undefined\<close> then
  raises a TypeError, and with nothing to substitute \<open>undefined\<close> is returned as it is.
\<close>

definition interpolateMessage :: "string option \<Rightarrow> HookContext \<Rightarrow> error + string option" where
  "interpolateMessage msg context =
     (case msg of
        None \<Rightarrow>
          if truthy (filePath context) \<or> truthy (ctx_message context) \<or> truthy (event context)
          then Inl (Error ''Cannot read properties of undefined'')
          else Inr None
      | Some t \<Rightarrow>
          Inr (Some (substitute ''{event}'' (event context)
                      (substitute ''{message}'' (ctx_message context)
                        (substitute ''{filePath}'' (filePath context) t)))))"

subsection \<open>Action execution\<close>

definition failure :: "string \<Rightarrow> HookResult" where
  "failure e = \<lparr> success = False, output_text = None, error_text = Some e \<rparr>"

definition executeSendMessage ::
  "'w HookManager \<Rightarrow> string option \<Rightarrow> HookContext \<Rightarrow> 'w \<Rightarrow> HookResult \<times> 'w" where
  "executeSendMessage m msg context w =
     (case messageSender m of
        None \<Rightarrow> (failure ''No message sender configured'', w)
      | Some sender \<Rightarrow>
          (case interpolateMessage msg context of
             Inl (Error errorMessage) \<Rightarrow> (failure errorMessage, w)
           | Inr interpolatedMessage \<Rightarrow>
               (case sender interpolatedMessage w of
                  (Inl (Error errorMessage), w') \<Rightarrow> (failure errorMessage, w')
                | (Inr _, w') \<Rightarrow>
                    (\<lparr> success = True, output_text = interpolatedMessage, error_text = None \<rparr>, w'))))"

definition executeCommand ::
  "'w runtime \<Rightarrow> string option \<Rightarrow> string option \<Rightarrow> 'w \<Rightarrow> HookResult \<times> 'w" where
  "executeCommand rt cmd dir w =
     (case execAsync rt cmd dir w of
        (Inr (stdout, stderr), w') \<Rightarrow>
          (\<lparr> success = True, output_text = Some (if stdout \<noteq> [] then stdout else stderr),
             error_text = None \<rparr>, w')
      | (Inl (Error errorMessage), w') \<Rightarrow> (failure errorMessage, w'))"

text \<open>
  \<open>executeHookAction\<close> is awaited inside a \<open>try\<close> by its callers, so its outcome is a
  sum; both action runners convert every rejection into a failed result themselves.
\<close>

definition executeHookAction ::
  "'w runtime \<Rightarrow> 'w HookManager \<Rightarrow> HookConfig \<Rightarrow> HookContext \<Rightarrow> 'w \<Rightarrow> (error + HookResult) \<times> 'w" where
  "executeHookAction rt m hook context w =
     (if action_type (action hook) = ''send_message''
        then (case executeSendMessage m (message (action hook)) context w of
                (r, w') \<Rightarrow> (Inr r, w'))
      else if action_type (action hook) = ''execute_command''
        then (case executeCommand rt (command (action hook)) (cwd (action hook)) w of
                (r, w') \<Rightarrow> (Inr r, w'))
      else (Inr (failure (''Unknown action type: '' @ action_type (action hook))), w))"

subsection \<open>Event dispatch\<close>

text \<open>
  The pattern check at the head of the loop body of \<open>emit\<close>: \<open>Inr True\<close> when the hook
  is skipped by \<open>continue\<close>. The check runs outside the \<open>try\<close>, so an error raised by
  the regular expression leaves \<open>emit\<close>.
\<close>

definition skipped_by_pattern :: "'w runtime \<Rightarrow> HookConfig \<Rightarrow> HookContext \<Rightarrow> error + bool" where
  "skipped_by_pattern rt hook context =
     (if trigger_type (trigger hook) = ''file_save''
         \<and> truthy (pattern (trigger hook)) \<and> truthy (filePath context)
      then (case (filePath context, pattern (trigger hook)) of
              (Some f, Some p) \<Rightarrow>
                (case matchesPattern rt f p of Inl e \<Rightarrow> Inl e | Inr matched \<Rightarrow> Inr (\<not> matched))
            | _ \<Rightarrow> Inr False)
      else Inr False)"

definition quoted :: "string \<Rightarrow> string" where
  "quoted t = [CHR 0x27] @ t @ [CHR 0x27]"

text \<open>
  The loop over the matching hooks. Besides the manager (for its log) and the world it
  carries the sequence of values that \<open>executeHookAction\<close> produced, one per executed
  hook, so that they can be observed.
\<close>

fun emit_hooks ::
  "'w runtime \<Rightarrow> HookContext \<Rightarrow> HookConfig list
     \<Rightarrow> 'w HookManager \<times> 'w \<times> (string \<times> (error + HookResult)) list
     \<Rightarrow> error + 'w HookManager \<times> 'w \<times> (string \<times> (error + HookResult)) list" where
  "emit_hooks rt context [] st = Inr st"
| "emit_hooks rt context (hook # rest) (m, w, results) =
     (case skipped_by_pattern rt hook context of
        Inl e \<Rightarrow> Inl e
      | Inr True \<Rightarrow> emit_hooks rt context rest (m, w, results)
      | Inr False \<Rightarrow>
          (case executeHookAction rt m hook context w of
             (Inr result, w') \<Rightarrow>
               emit_hooks rt context rest
                 (if \<not> success result \<and> truthy (error_text result)
                  then log_error (''Hook '' @ quoted (hook_id hook) @ '' execution failed: ''
                                    @ (case error_text result of Some e \<Rightarrow> e | None \<Rightarrow> []))
                         None m
                  else m,
                  w', results @ [(hook_id hook, Inr result)])
           | (Inl e, w') \<Rightarrow>
               emit_hooks rt context rest
                 (log_error (''Hook '' @ quoted (hook_id hook) @ '' execution failed'') (Some e) m,
                  w', results @ [(hook_id hook, Inl e)])))"

fun notify_listeners ::
  "string \<Rightarrow> HookContext \<Rightarrow> (HookContext \<Rightarrow> 'w \<Rightarrow> (error + unit) \<times> 'w) list
     \<Rightarrow> 'w HookManager \<times> 'w \<Rightarrow> 'w HookManager \<times> 'w" where
  "notify_listeners eventType context [] st = st"
| "notify_listeners eventType context (handler # rest) (m, w) =
     (case handler context w of
        (Inr _, w') \<Rightarrow> notify_listeners eventType context rest (m, w')
      | (Inl e, w') \<Rightarrow>
          notify_listeners eventType context rest
            (log_error (''Event handler for '' @ quoted eventType @ '' failed'') (Some e) m, w'))"

text \<open>
  \<open>emit\<close>: \<open>Inl\<close> when the call raises, otherwise the manager and world afterwards and
  the results of the hooks that were executed.
\<close>

definition emit ::
  "'w runtime \<Rightarrow> string \<Rightarrow> HookContext \<Rightarrow> 'w HookManager \<Rightarrow> 'w
     \<Rightarrow> error + 'w HookManager \<times> 'w \<times> (string \<times> (error + HookResult)) list" where
  "emit rt eventType context m w =
     (let matchingHooks =
            filter (\<lambda>hook. enabled hook \<and> trigger_type (trigger hook) = eventType) (listHooks m)
      in case emit_hooks rt context matchingHooks (m, w, []) of
           Inl e \<Rightarrow> Inl e
         | Inr (m1, w1, results) \<Rightarrow>
             (case notify_listeners eventType context (eventListeners m1 eventType) (m1, w1) of
                (m2, w2) \<Rightarrow> Inr (m2, w2, results)))"

definition triggerByEvent ::
  "'w runtime \<Rightarrow> string \<Rightarrow> HookContext \<Rightarrow> 'w HookManager \<Rightarrow> 'w
     \<Rightarrow> error + 'w HookManager \<times> 'w \<times> (string \<times> (error + HookResult)) list" where
  "triggerByEvent rt eventType context m w = emit rt eventType context m w"

definition empty_context :: HookContext where
  "empty_context =
     \<lparr> event = None, filePath = None, ctx_message = None, ctx_specName = None, ctx_taskId = None \<rparr>"

section \<open>ConfigWatcher and ConfigReloader (config-watcher.ts)\<close>

datatype ConfigChangeType = cfg_specs | cfg_hooks | cfg_steering

datatype WatchEventType = ev_create | ev_change | ev_delete

record WatchEvent =
  event_type :: WatchEventType
  event_path :: string

record ConfigChangeEvent =
  change_type :: ConfigChangeType
  change_event :: WatchEvent

definition type_name :: "ConfigChangeType \<Rightarrow> string" where
  "type_name t = (case t of cfg_specs \<Rightarrow> ''specs'' | cfg_hooks \<Rightarrow> ''hooks'' | cfg_steering \<Rightarrow> ''steering'')"

subsection \<open>ConfigWatcher\<close>

text \<open>
  A timeout pending in the event loop: its handle, the clock value at which it expires,
  and what its callback closes over (\<open>debounceKey\<close>, \<open>type\<close> and \<open>event\<close>).
\<close>

record timer =
  timer_id :: nat
  due :: nat
  timer_key :: string
  timer_event :: ConfigChangeEvent

text \<open>
  The watcher's fields together with the part of the event loop it uses. \<open>watchers\<close>
  holds the live subscriptions by category, \<open>handlers\<close> the registered handlers by
  identity, \<open>debounceTimers\<close> the map from key to timer handle. \<open>clock\<close>, \<open>timeouts\<close>
  and \<open>next_handle\<close> belong to the event loop. \<open>delivered\<close> lists every handler
  invocation made by \<open>notifyHandlers\<close>; a handler that throws is ignored by the source,
  so the invocation is all that is observed of it.
\<close>

record ConfigWatcher =
  debounceMs :: nat
  watchers :: "ConfigChangeType list"
  handlers :: "nat list"
  watching :: bool
  debounceTimers :: "(string \<times> nat) list"
  clock :: nat
  timeouts :: "timer list"
  next_handle :: nat
  delivered :: "(nat \<times> ConfigChangeEvent) list"







definition isWatching :: "ConfigWatcher \<Rightarrow> bool" where
  "isWatching s = watching s"












subsection \<open>ConfigReloader\<close>

text \<open>
  The three managers are optional collaborators; each is represented by the one method
  the reloader calls (\<open>listSpecs\<close>, \<open>loadHooks\<close>, \<open>loadSteeringFiles\<close>), which resolves
  or rejects. \<open>reload_logged\<close> is the sequence of calls the logger has received.
\<close>

record 'w ConfigReloader =
  specManager :: "('w \<Rightarrow> (error + unit) \<times> 'w) option"
  hookManager :: "('w \<Rightarrow> (error + unit) \<times> 'w) option"
  steeringManager :: "('w \<Rightarrow> (error + unit) \<times> 'w) option"
  reload_logged :: "log_entry list"

definition reload_with ::
  "('w \<Rightarrow> (error + unit) \<times> 'w) option \<Rightarrow> string \<Rightarrow> string \<Rightarrow> 'w ConfigReloader \<Rightarrow> 'w
     \<Rightarrow> (error + unit) \<times> 'w ConfigReloader \<times> 'w" where
  "reload_with manager done failed r w =
     (case manager of
        None \<Rightarrow> (Inr (), r, w)
      | Some refresh \<Rightarrow>
          (case refresh w of
             (Inr _, w') \<Rightarrow> (Inr (), r\<lparr> reload_logged := reload_logged r @ [LogInfo done] \<rparr>, w')
           | (Inl e, w') \<Rightarrow>
               (Inl e, r\<lparr> reload_logged := reload_logged r @ [LogError failed (Some e)] \<rparr>, w')))"

definition reloadSpecs :: "'w ConfigReloader \<Rightarrow> 'w \<Rightarrow> (error + unit) \<times> 'w ConfigReloader \<times> 'w" where
  "reloadSpecs r w = reload_with (specManager r) ''Specs reloaded'' ''Failed to reload specs'' r w"

definition reloadHooks :: "'w ConfigReloader \<Rightarrow> 'w \<Rightarrow> (error + unit) \<times> 'w ConfigReloader \<times> 'w" where
  "reloadHooks r w = reload_with (hookManager r) ''Hooks reloaded'' ''Failed to reload hooks'' r w"

definition reloadSteering :: "'w ConfigReloader \<Rightarrow> 'w \<Rightarrow> (error + unit) \<times> 'w ConfigReloader \<times> 'w" where
  "reloadSteering r w =
     reload_with (steeringManager r) ''Steering files reloaded'' ''Failed to reload steering files'' r w"

text \<open>\<open>Promise.all\<close>: rejected as soon as one member is rejected.\<close>

fun promise_all :: "(error + 'a) list \<Rightarrow> error + 'a list" where
  "promise_all [] = Inr []"
| "promise_all (Inl e # rest) = Inl e"
| "promise_all (Inr v # rest) = (case promise_all rest of Inl e \<Rightarrow> Inl e | Inr vs \<Rightarrow> Inr (v # vs))"

text \<open>
  \<open>reloadAll\<close> calls the three reloads while it builds the array, so all three are
  started, in array order, whatever their outcomes. The model runs them one after the
  other in that order; in the source they overlap, so the order of the log entries and
  which of several rejections is reported depend on timing.
\<close>

definition reloadAll :: "'w ConfigReloader \<Rightarrow> 'w \<Rightarrow> (error + unit) \<times> 'w ConfigReloader \<times> 'w" where
  "reloadAll r w =
     (case reloadSpecs r w of (o1, r1, w1) \<Rightarrow>
        (case reloadHooks r1 w1 of (o2, r2, w2) \<Rightarrow>
           (case reloadSteering r2 w2 of (o3, r3, w3) \<Rightarrow>
              (case promise_all [o1, o2, o3] of
                 Inl e \<Rightarrow> (Inl e, r3, w3)
               | Inr _ \<Rightarrow> (Inr (), r3, w3)))))"

text \<open>The watcher callback of the reloader: a rejected reload is logged and swallowed.\<close>

definition handleConfigChange ::
  "ConfigChangeEvent \<Rightarrow> 'w ConfigReloader \<Rightarrow> 'w \<Rightarrow> 'w ConfigReloader \<times> 'w" where
  "handleConfigChange ev r w =
     (case (case change_type ev of
              cfg_specs \<Rightarrow> reloadSpecs r w
            | cfg_hooks \<Rightarrow> reloadHooks r w
            | cfg_steering \<Rightarrow> reloadSteering r w) of
        (Inr _, r', w') \<Rightarrow> (r', w')
      | (Inl e, r', w') \<Rightarrow>
          (r'\<lparr> reload_logged := reload_logged r' @
                  [LogError (''Failed to reload '' @ type_name (change_type ev)) (Some e)] \<rparr>, w'))"

text \<open>
  Managers that record which refresh was called, in order, and reject for the categories
  selected by \<open>fails\<close>.
\<close>

definition recording_manager ::
  "(ConfigChangeType \<Rightarrow> bool) \<Rightarrow> ConfigChangeType \<Rightarrow> ConfigChangeType list
     \<Rightarrow> (error + unit) \<times> ConfigChangeType list" where
  "recording_manager fails t calls =
     (if fails t then Inl (Error (''cannot refresh '' @ type_name t)) else Inr (), calls @ [t])"

definition recording_reloader :: "(ConfigChangeType \<Rightarrow> bool) \<Rightarrow> (ConfigChangeType list) ConfigReloader" where
  "recording_reloader fails =
     \<lparr> specManager = Some (recording_manager fails cfg_specs),
       hookManager = Some (recording_manager fails cfg_hooks),
       steeringManager = Some (recording_manager fails cfg_steering),
       reload_logged = [] \<rparr>"

section \<open>Notions used in the statements\<close>

subsection \<open>Hook dispatch\<close>

text \<open>
  An entry of the result list of \<open>emit\<close> stems from hook \<open>h\<close>: it carries the id of
  \<open>h\<close> and the outcome of running the action of \<open>h\<close> in some state.
\<close>

definition executed_as ::
  "'w runtime \<Rightarrow> HookContext \<Rightarrow> HookConfig \<Rightarrow> string \<times> (error + HookResult) \<Rightarrow> bool" where
  "executed_as rt context h d =
     (fst d = hook_id h \<and> (\<exists>m0 w0. snd d = fst (executeHookAction rt m0 h context w0)))"

subsection \<open>Watcher states\<close>





section \<open>Concrete scenarios\<close>

text \<open>
  A host for the hook manager whose state is the list of filesystem calls made so far:
  serialisation keeps id and name, every pattern test succeeds, every command fails.
\<close>

definition test_runtime :: "(fs_call list) runtime" where
  "test_runtime =
     \<lparr> json_stringify = (\<lambda>hook. hook_id hook @ '':'' @ name hook),
       regex_test = (\<lambda>source subject. Inr True),
       execAsync = (\<lambda>cmd dir w. (Inl (Error ''Command failed''), w)) \<rparr>"

definition send_hook :: "string \<Rightarrow> string \<Rightarrow> HookTrigger \<Rightarrow> string option \<Rightarrow> HookConfig" where
  "send_hook i n tr msg =
     \<lparr> hook_id = i, name = n, trigger = tr,
       action = \<lparr> action_type = ''send_message'', message = msg, command = None, cwd = None \<rparr>,
       enabled = True \<rparr>"

definition on_event :: "string \<Rightarrow> HookTrigger" where
  "on_event ty = \<lparr> trigger_type = ty, pattern = None \<rparr>"

definition empty_manager :: "(fs_call list) HookManager" where
  "empty_manager = new_HookManager (recording_sink (\<lambda>c. False))"

text \<open>A sender that rejects with an error whose message is empty, and one that accepts.\<close>

definition silent_failing_sender :: "string option \<Rightarrow> fs_call list \<Rightarrow> (error + unit) \<times> fs_call list" where
  "silent_failing_sender msg w = (Inl (Error []), w)"


definition failing_hook :: HookConfig where
  "failing_hook = send_hook ''failing-hook'' ''Failing Hook'' (on_event ''message_sent'') (Some ''test'')"

definition manager_with_failing_hook :: "(fs_call list) HookManager" where
  "manager_with_failing_hook =
     setMessageSender silent_failing_sender
       (fst (snd (registerHook test_runtime failing_hook empty_manager [])))"

definition lint_hook :: HookConfig where
  "lint_hook = send_hook ''lint'' ''Lint on save'' (on_event ''file_save'') (Some ''lint {filePath}'')"

definition lint_hook_again :: HookConfig where
  "lint_hook_again = send_hook ''lint'' ''Format on save'' (on_event ''manual'') (Some ''format'')"

definition manager_with_lint :: "(fs_call list) HookManager" where
  "manager_with_lint = fst (snd (registerHook test_runtime lint_hook empty_manager []))"

definition calls_after_lint :: "fs_call list" where
  "calls_after_lint = snd (snd (registerHook test_runtime lint_hook empty_manager []))"

definition empty_message_hook :: HookConfig where
  "empty_message_hook = send_hook ''greet'' ''Greeting'' (on_event ''session_created'') (Some [])"

definition no_message_hook :: HookConfig where
  "no_message_hook = send_hook ''greet'' ''Greeting'' (on_event ''session_created'') None"



text \<open>A session with one queued, unapproved change.\<close>

definition queued_session :: Session where
  "queued_session =
     snd (queueCodeChanges ''change-1'' 0
            [\<lparr> path = ''src/a.ts'', content = ''export {}'', operation = create \<rparr>,
             \<lparr> path = ''src/old.ts'', content = [], operation = delete \<rparr>]
            initial_session)"


section \<open>Workflow controller: phase gate\<close>

lemma workflow_of_store [simp]: "workflow_of n (store_state n st s) = st"
  by (simp add: workflow_of_def store_state_def getOrCreateWorkflowState_def)

lemma getOrCreate_idem:
  "getOrCreateWorkflowState n s = (st, s1) \<Longrightarrow> workflow_of n s1 = st"
  by (auto simp: workflow_of_def getOrCreateWorkflowState_def Let_def split: option.splits)

lemma at_implementation_state:
  "workflow_of ''feature'' at_implementation =
     \<lparr> specName = ''feature'', currentPhase = implementation, requirementsApproved = True,
       designApproved = True, tasksApproved = True \<rparr>"
  by (simp add: at_implementation_def initial_session_def approveCurrentPhase_def
      getOrCreateWorkflowState_def store_state_def workflow_of_def Let_def)

text \<open>
  C2. For every specification name and every session, \<open>canTransitionToPhase\<close> answers
  true for \<open>requirements\<close>, and for \<open>design\<close>, \<open>tasks\<close> and \<open>implementation\<close> it answers
  exactly the value of \<open>requirementsApproved\<close>, \<open>designApproved\<close> and \<open>tasksApproved\<close>
  of the specification's workflow state; so it is true for a later phase only if the
  phase before it has been approved.
\<close>

theorem canTransitionToPhase_gate:
  "fst (canTransitionToPhase n requirements s) = True \<and>
   fst (canTransitionToPhase n design s) = requirementsApproved (workflow_of n s) \<and>
   fst (canTransitionToPhase n tasks s) = designApproved (workflow_of n s) \<and>
   fst (canTransitionToPhase n implementation s) = tasksApproved (workflow_of n s)"
  by (simp add: canTransitionToPhase_def workflow_of_def split_beta)

text \<open>
  C7, as amended. For every specification name, \<open>approveCurrentPhase\<close> sets the approval
  flag of the current phase and moves to the next phase of requirements, design, tasks,
  implementation; at \<open>implementation\<close> it changes nothing. It returns true in every
  phase, also when nothing was advanced.
\<close>

theorem approveCurrentPhase_advances:
  "fst (approveCurrentPhase n s) = True \<and>
   workflow_of n (snd (approveCurrentPhase n s)) =
     (case currentPhase (workflow_of n s) of
        requirements \<Rightarrow> (workflow_of n s)\<lparr> requirementsApproved := True, currentPhase := design \<rparr>
      | design \<Rightarrow> (workflow_of n s)\<lparr> designApproved := True, currentPhase := tasks \<rparr>
      | tasks \<Rightarrow> (workflow_of n s)\<lparr> tasksApproved := True, currentPhase := implementation \<rparr>
      | implementation \<Rightarrow> workflow_of n s)"
proof -
  obtain st s1 where g: "getOrCreateWorkflowState n s = (st, s1)"
    by (cases "getOrCreateWorkflowState n s")
  have w: "workflow_of n s = st" using g by (simp add: workflow_of_def)
  have w1: "workflow_of n s1 = st" using g by (rule getOrCreate_idem)
  show ?thesis
    by (cases "currentPhase st") (simp_all add: approveCurrentPhase_def g w w1)
qed

text \<open>
  C7 as stated fails: after three approvals the specification is at \<open>implementation\<close>;
  a fourth call leaves the phase where it is and still returns true, so the returned
  value does not tell whether an advance occurred.
\<close>

theorem approveCurrentPhase_return_counterexample:
  "\<not> (fst (approveCurrentPhase ''feature'' at_implementation) =
        (currentPhase (workflow_of ''feature'' (snd (approveCurrentPhase ''feature'' at_implementation)))
           \<noteq> currentPhase (workflow_of ''feature'' at_implementation)))"
proof -
  obtain st s1 where g: "getOrCreateWorkflowState ''feature'' at_implementation = (st, s1)"
    by (cases "getOrCreateWorkflowState ''feature'' at_implementation")
  have st: "st = workflow_of ''feature'' at_implementation" using g by (simp add: workflow_of_def)
  have w1: "workflow_of ''feature'' s1 = st" using g by (rule getOrCreate_idem)
  have ph: "currentPhase st = implementation" by (simp add: st at_implementation_state)
  have "approveCurrentPhase ''feature'' at_implementation = (True, s1)"
    by (simp add: approveCurrentPhase_def g ph)
  then show ?thesis using w1 st by simp
qed

text \<open>
  C8. For every specification name, resetting \<open>requirements\<close> clears all three approval
  flags and puts the current phase back to \<open>requirements\<close>; resetting \<open>design\<close> clears
  the design and tasks approvals, keeps \<open>requirementsApproved\<close>, and puts the current
  phase back to \<open>design\<close> when it was \<open>tasks\<close> or \<open>implementation\<close>; resetting \<open>tasks\<close>
  clears only the tasks approval and puts the current phase back to \<open>tasks\<close> when it was
  \<open>implementation\<close>. Nothing else of the state changes.
\<close>

theorem resetPhaseApproval_cascade:
  "workflow_of n (resetPhaseApproval n requirements s) =
     (workflow_of n s)\<lparr> requirementsApproved := False, designApproved := False,
                         tasksApproved := False, currentPhase := requirements \<rparr> \<and>
   workflow_of n (resetPhaseApproval n design s) =
     (workflow_of n s)\<lparr> designApproved := False, tasksApproved := False,
                         currentPhase := (if currentPhase (workflow_of n s) \<in> {tasks, implementation}
                                          then design else currentPhase (workflow_of n s)) \<rparr> \<and>
   workflow_of n (resetPhaseApproval n tasks s) =
     (workflow_of n s)\<lparr> tasksApproved := False,
                         currentPhase := (if currentPhase (workflow_of n s) = implementation
                                          then tasks else currentPhase (workflow_of n s)) \<rparr>"
proof -
  obtain st s1 where g: "getOrCreateWorkflowState n s = (st, s1)"
    by (cases "getOrCreateWorkflowState n s")
  have w: "workflow_of n s = st" using g by (simp add: workflow_of_def)
  show ?thesis
    by (cases "currentPhase st") (simp_all add: resetPhaseApproval_def g w Let_def)
qed

section \<open>Workflow controller: approval gate for code changes\<close>

lemma apply_pending_filter:
  "apply_pending fs ps acc = apply_pending fs (filter approved ps) acc"
  by (induction ps arbitrary: acc) simp_all

lemma apply_pending_unapproved:
  "\<forall>p \<in> set ps. \<not> approved p \<Longrightarrow> apply_pending fs ps acc = acc"
  by (induction ps arbitrary: acc) simp_all

lemma apply_change_recording:
  "apply_change (recording_sink fails) c (applied, calls) =
     (applied @ (if fails (sink_call c) then [] else [c]), calls @ [sink_call c])"
  by (cases "operation c") (simp_all add: apply_change_def recording_sink_def sink_call_def)

lemma apply_changes_recording:
  "apply_changes (recording_sink fails) cs (applied, calls) =
     (applied @ filter (\<lambda>c. \<not> fails (sink_call c)) cs, calls @ map sink_call cs)"
  by (induction cs arbitrary: applied calls) (simp_all add: apply_change_recording)

lemma apply_pending_recording:
  "apply_pending (recording_sink fails) ps (applied, calls) =
     (applied @ filter (\<lambda>c. \<not> fails (sink_call c)) (concat (map changes (filter approved ps))),
      calls @ map sink_call (concat (map changes (filter approved ps))))"
  by (induction ps arbitrary: applied calls) (simp_all add: apply_changes_recording)

text \<open>
  C1. \<open>applyApprovedChanges\<close> never passes an edit of an unapproved entry to the sink.
  For any sink, the applied edits and the sink's final state are those of the run on the
  approved entries alone, and when no entry is approved the sink is not called at all.
  On a sink that records its calls, the calls made are exactly the writes and deletes of
  the edits of the approved entries, in order, whichever of them fail: a failed edit
  does not stop the later ones, and the edits returned are those whose call succeeded.
  Afterwards the queue holds exactly the unapproved entries, unchanged, and
  \<open>getPendingChanges\<close> returns what it returned before.
\<close>

theorem applyApprovedChanges_gate:
  "fst (applyApprovedChanges fs w s) =
     fst (applyApprovedChanges fs w (s\<lparr> pendingChanges := filter approved (pendingChanges s) \<rparr>)) \<and>
   ((\<forall>p \<in> set (pendingChanges s). \<not> approved p) \<longrightarrow>
      fst (applyApprovedChanges fs w s) = ([], w)) \<and>
   fst (applyApprovedChanges (recording_sink fails) calls s) =
     (filter (\<lambda>c. \<not> fails (sink_call c)) (concat (map changes (filter approved (pendingChanges s)))),
      calls @ map sink_call (concat (map changes (filter approved (pendingChanges s))))) \<and>
   pendingChanges (snd (applyApprovedChanges fs w s)) = getPendingChanges s \<and>
   getPendingChanges (snd (applyApprovedChanges fs w s)) = getPendingChanges s \<and>
   specWorkflows (snd (applyApprovedChanges fs w s)) = specWorkflows s"
proof -
  have a: "fst (applyApprovedChanges fs w s) =
     fst (applyApprovedChanges fs w (s\<lparr> pendingChanges := filter approved (pendingChanges s) \<rparr>))"
    using apply_pending_filter[of fs "pendingChanges s" "([], w)"]
    by (simp add: applyApprovedChanges_def)
  have b: "(\<forall>p \<in> set (pendingChanges s). \<not> approved p) \<longrightarrow>
      fst (applyApprovedChanges fs w s) = ([], w)"
    by (simp add: applyApprovedChanges_def apply_pending_unapproved)
  have c: "fst (applyApprovedChanges (recording_sink fails) calls s) =
     (filter (\<lambda>c. \<not> fails (sink_call c)) (concat (map changes (filter approved (pendingChanges s)))),
      calls @ map sink_call (concat (map changes (filter approved (pendingChanges s)))))"
    by (simp add: applyApprovedChanges_def apply_pending_recording)
  have d: "pendingChanges (snd (applyApprovedChanges fs w s)) = getPendingChanges s"
    by (simp add: applyApprovedChanges_def getPendingChanges_def)
  have e: "getPendingChanges (snd (applyApprovedChanges fs w s)) = getPendingChanges s"
    by (simp add: applyApprovedChanges_def getPendingChanges_def)
  have f: "specWorkflows (snd (applyApprovedChanges fs w s)) = specWorkflows s"
    by (simp add: applyApprovedChanges_def)
  from a b c d e f show ?thesis by blast
qed

lemma queued_session_pending:
  "pendingChanges queued_session =
     [\<lparr> change_id = ''change-1'',
        changes = [\<lparr> path = ''src/a.ts'', content = ''export {}'', operation = create \<rparr>,
                   \<lparr> path = ''src/old.ts'', content = [], operation = delete \<rparr>],
        approved = False, timestamp = 0 \<rparr>]"
  by (simp add: queued_session_def queueCodeChanges_def initial_session_def)

text \<open>
  The gate on a concrete queue: a change that was queued and not approved causes no sink
  call and stays pending; once approved, its two edits reach the sink as one write and
  one delete.
\<close>

theorem applyApprovedChanges_gate_witness:
  "list_all (\<lambda>p. \<not> approved p) (pendingChanges queued_session) \<and>
   fst (applyApprovedChanges (recording_sink (\<lambda>c. False)) [] queued_session) = ([], []) \<and>
   getPendingChanges (snd (applyApprovedChanges (recording_sink (\<lambda>c. False)) [] queued_session))
     = pendingChanges queued_session \<and>
   snd (fst (applyApprovedChanges (recording_sink (\<lambda>c. False)) []
               (snd (approveChange ''change-1'' queued_session))))
     = [WriteFile ''src/a.ts'' ''export {}'', Delete ''src/old.ts'']"
proof -
  have h: "\<forall>p \<in> set (pendingChanges queued_session). \<not> approved p"
    by (simp add: queued_session_pending)
  have ap: "pendingChanges (snd (approveChange ''change-1'' queued_session)) =
     [\<lparr> change_id = ''change-1'',
        changes = [\<lparr> path = ''src/a.ts'', content = ''export {}'', operation = create \<rparr>,
                   \<lparr> path = ''src/old.ts'', content = [], operation = delete \<rparr>],
        approved = True, timestamp = 0 \<rparr>]"
    by (simp add: approveChange_def queued_session_pending)
  from applyApprovedChanges_gate[of "recording_sink (\<lambda>c. False)" "[]" queued_session "\<lambda>c. False" "[]"] h
  have "fst (applyApprovedChanges (recording_sink (\<lambda>c. False)) [] queued_session) = ([], [])"
    and "getPendingChanges (snd (applyApprovedChanges (recording_sink (\<lambda>c. False)) [] queued_session))
           = getPendingChanges queued_session"
    by blast+
  moreover have "getPendingChanges queued_session = pendingChanges queued_session"
    by (simp add: getPendingChanges_def queued_session_pending)
  moreover have "snd (fst (applyApprovedChanges (recording_sink (\<lambda>c. False)) []
               (snd (approveChange ''change-1'' queued_session))))
     = [WriteFile ''src/a.ts'' ''export {}'', Delete ''src/old.ts'']"
  proof -
    from applyApprovedChanges_gate[of "recording_sink (\<lambda>c. False)" "[]"
        "snd (approveChange ''change-1'' queued_session)" "\<lambda>c. False" "[]"]
    have "fst (applyApprovedChanges (recording_sink (\<lambda>c. False)) []
                 (snd (approveChange ''change-1'' queued_session))) =
          (filter (\<lambda>c. \<not> False)
             (concat (map changes (filter approved
                (pendingChanges (snd (approveChange ''change-1'' queued_session)))))),
           [] @ map sink_call
             (concat (map changes (filter approved
                (pendingChanges (snd (approveChange ''change-1'' queued_session)))))))"
      by blast
    then show ?thesis by (simp add: ap sink_call_def)
  qed
  ultimately show ?thesis using h by (simp add: list_all_iff)
qed

section \<open>Hook manager: registration\<close>

lemma map_of_map_set_same [simp]: "map_of (map_set k v xs) k = Some v"
  by (induction xs) auto

lemma map_of_map_set_other: "k' \<noteq> k \<Longrightarrow> map_of (map_set k v xs) k' = map_of xs k'"
  by (induction xs) auto

lemma map_set_keys:
  "map fst (map_set k v xs) = (if k \<in> fst ` set xs then map fst xs else map fst xs @ [k])"
  by (induction xs) force+

lemma registerHook_keeps_fs: "hm_fs (fst (snd (registerHook rt h m w))) = hm_fs m"
  by (auto simp: registerHook_def split: sum.splits prod.splits)

lemma empty_manager_fs: "hm_fs empty_manager = recording_sink (\<lambda>c. False)"
  by (simp add: empty_manager_def new_HookManager_def)

lemma manager_with_lint_fs: "hm_fs manager_with_lint = recording_sink (\<lambda>c. False)"
  by (simp add: manager_with_lint_def registerHook_keeps_fs empty_manager_fs)

lemma recording_sink_accepts:
  "fs_mkdir (recording_sink (\<lambda>c. False)) p w = (Inr (), w @ [Mkdir p])"
  "fs_writeFile (recording_sink (\<lambda>c. False)) p c w = (Inr (), w @ [WriteFile p c])"
  by (simp_all add: recording_sink_def)

lemma lint_hook_again_valid: "validateHook lint_hook_again = Inr ()"
  by code_simp

lemma manager_with_lint_hooks: "hooks manager_with_lint = [(''lint'', lint_hook)]"
  by code_simp

text \<open>
  C4, as amended. Registering a rule whose id is already present does not fail: when
  validation and the two filesystem steps succeed, \<open>registerHook\<close> succeeds and the rule
  stored under the id is the new one, at the position of the old one; rules under other
  ids are untouched.
\<close>

theorem registerHook_replaces:
  assumes "validateHook hook = Inr ()"
    and "fs_mkdir (hm_fs m) ''.kiro/hooks'' w = (Inr (), w1)"
    and "fs_writeFile (hm_fs m) (getHookPath (hook_id hook)) (json_stringify rt hook) w1 = (Inr (), w2)"
  shows "\<exists>m'. registerHook rt hook m w = (Inr (), m', w2) \<and>
           getHook (hook_id hook) m' = Some hook \<and>
           (\<forall>k. k \<noteq> hook_id hook \<longrightarrow> getHook k m' = getHook k m) \<and>
           map fst (hooks m') =
             (if hook_id hook \<in> fst ` set (hooks m) then map fst (hooks m)
              else map fst (hooks m) @ [hook_id hook])"
  using assms
  by (simp add: registerHook_def getHook_def map_of_map_set_other map_set_keys)

text \<open>
  Registering a second rule under the id \<open>lint\<close>, with another name, trigger and
  message: the call succeeds and the stored rule is the second one.
\<close>

theorem registerHook_replaces_witness:
  "validateHook lint_hook_again = Inr () \<and>
   fs_mkdir (hm_fs manager_with_lint) ''.kiro/hooks'' calls_after_lint
     = (Inr (), calls_after_lint @ [Mkdir ''.kiro/hooks'']) \<and>
   fs_writeFile (hm_fs manager_with_lint) (getHookPath (hook_id lint_hook_again))
       (json_stringify test_runtime lint_hook_again) (calls_after_lint @ [Mkdir ''.kiro/hooks''])
     = (Inr (), calls_after_lint @ [Mkdir ''.kiro/hooks''] @
                  [WriteFile ''.kiro/hooks/lint.json'' ''lint:Format on save'']) \<and>
   (\<exists>m'. registerHook test_runtime lint_hook_again manager_with_lint calls_after_lint
            = (Inr (), m', calls_after_lint @ [Mkdir ''.kiro/hooks''] @
                  [WriteFile ''.kiro/hooks/lint.json'' ''lint:Format on save'']) \<and>
          getHook ''lint'' m' = Some lint_hook_again \<and>
          map fst (hooks m') = [''lint''])"
proof -
  have i: "hook_id lint_hook_again = ''lint''"
    by (simp add: lint_hook_again_def send_hook_def)
  have h2: "fs_mkdir (hm_fs manager_with_lint) ''.kiro/hooks'' calls_after_lint
     = (Inr (), calls_after_lint @ [Mkdir ''.kiro/hooks''])"
    by (simp add: manager_with_lint_fs recording_sink_accepts)
  have h3: "fs_writeFile (hm_fs manager_with_lint) (getHookPath (hook_id lint_hook_again))
       (json_stringify test_runtime lint_hook_again) (calls_after_lint @ [Mkdir ''.kiro/hooks''])
     = (Inr (), calls_after_lint @ [Mkdir ''.kiro/hooks''] @
                  [WriteFile ''.kiro/hooks/lint.json'' ''lint:Format on save''])"
    by (simp add: manager_with_lint_fs recording_sink_accepts getHookPath_def test_runtime_def
        lint_hook_again_def send_hook_def)
  from registerHook_replaces[OF lint_hook_again_valid h2 h3]
  have "\<exists>m'. registerHook test_runtime lint_hook_again manager_with_lint calls_after_lint
            = (Inr (), m', calls_after_lint @ [Mkdir ''.kiro/hooks''] @
                  [WriteFile ''.kiro/hooks/lint.json'' ''lint:Format on save'']) \<and>
          getHook ''lint'' m' = Some lint_hook_again \<and>
          map fst (hooks m') = [''lint'']"
    by (auto simp add: i manager_with_lint_hooks)
  with lint_hook_again_valid h2 h3 show ?thesis by simp
qed

text \<open>
  C4 as stated fails: the rule \<open>lint\<close> is registered, then a different rule with the
  same id is registered; the second call returns normally and the first rule is gone.
\<close>

theorem registerHook_duplicate_counterexample:
  "getHook ''lint'' manager_with_lint = Some lint_hook \<and>
   hook_id lint_hook_again = hook_id lint_hook \<and>
   lint_hook_again \<noteq> lint_hook \<and>
   fst (registerHook test_runtime lint_hook_again manager_with_lint calls_after_lint) = Inr () \<and>
   getHook ''lint'' (fst (snd (registerHook test_runtime lint_hook_again manager_with_lint calls_after_lint)))
     = Some lint_hook_again"
  by code_simp

text \<open>
  C6, as amended. Every rule accepted by \<open>registerHook\<close> with a \<open>send_message\<close> action
  carries a message property and every accepted rule with an \<open>execute_command\<close> action
  carries a command property; the property may be the empty string. A rule whose action
  lacks its property is rejected with an error, and the manager and the filesystem are
  left as they were.
\<close>

theorem registerHook_requires_payload:
  "(fst (registerHook rt hook m w) = Inr () \<longrightarrow>
      (action_type (action hook) = ''send_message'' \<longrightarrow> message (action hook) \<noteq> None) \<and>
      (action_type (action hook) = ''execute_command'' \<longrightarrow> command (action hook) \<noteq> None)) \<and>
   ((action_type (action hook) = ''send_message'' \<and> message (action hook) = None) \<or>
    (action_type (action hook) = ''execute_command'' \<and> command (action hook) = None)
      \<longrightarrow> (\<exists>e. registerHook rt hook m w = (Inl e, m, w)))"
  by (auto simp: registerHook_def validateHook_def split: sum.splits prod.splits if_splits)

lemma empty_message_hook_accepted:
  "fst (registerHook test_runtime empty_message_hook empty_manager []) = Inr ()"
  by code_simp

text \<open>
  A greeting rule with the empty message is accepted; the same rule without a message
  property is rejected and nothing changes.
\<close>

theorem registerHook_requires_payload_witness:
  "fst (registerHook test_runtime empty_message_hook empty_manager []) = Inr () \<and>
   action_type (action empty_message_hook) = ''send_message'' \<and>
   message (action empty_message_hook) \<noteq> None \<and>
   action_type (action no_message_hook) = ''send_message'' \<and>
   message (action no_message_hook) = None \<and>
   (\<exists>e. registerHook test_runtime no_message_hook empty_manager [] = (Inl e, empty_manager, []))"
proof -
  have a: "action_type (action empty_message_hook) = ''send_message''"
    by (simp add: empty_message_hook_def send_hook_def)
  have b: "action_type (action no_message_hook) = ''send_message''"
    "message (action no_message_hook) = None"
    by (simp_all add: no_message_hook_def send_hook_def)
  from registerHook_requires_payload[of test_runtime empty_message_hook empty_manager "[]"]
    empty_message_hook_accepted a
  have c: "message (action empty_message_hook) \<noteq> None" by blast
  from registerHook_requires_payload[of test_runtime no_message_hook empty_manager "[]"] b
  have d: "\<exists>e. registerHook test_runtime no_message_hook empty_manager [] = (Inl e, empty_manager, [])"
    by blast
  from empty_message_hook_accepted a b c d show ?thesis by simp
qed

text \<open>
  C6 as stated fails: a \<open>send_message\<close> rule whose message is the empty string passes
  validation and is stored.
\<close>

theorem registerHook_empty_message_counterexample:
  "action_type (action empty_message_hook) = ''send_message'' \<and>
   message (action empty_message_hook) = Some [] \<and>
   validateHook empty_message_hook = Inr () \<and>
   fst (registerHook test_runtime empty_message_hook empty_manager []) = Inr () \<and>
   getHook ''greet'' (fst (snd (registerHook test_runtime empty_message_hook empty_manager [])))
     = Some empty_message_hook"
  by code_simp

section \<open>Hook manager: dispatch\<close>


lemma messageSender_log_error [simp]: "messageSender (log_error t e m) = messageSender m"
  by (simp add: log_error_def)

lemma executeHookAction_log_error [simp]:
  "executeHookAction rt (log_error t e m) h context w = executeHookAction rt m h context w"
  by (simp add: executeHookAction_def executeSendMessage_def)

text \<open>
  Failure isolation in the loop of \<open>emit\<close>: unless a pattern check raises, the loop
  returns normally whatever the actions do, and it has run the action of every hook
  that was not skipped, in order.
\<close>

lemma emit_hooks_isolated:
  "\<forall>h \<in> set hs. \<not> isl (skipped_by_pattern rt h context) \<Longrightarrow>
   \<exists>m' w' new.
     emit_hooks rt context hs (m, w, rs) = Inr (m', w', rs @ new) \<and>
     list_all2 (executed_as rt context)
       (filter (\<lambda>h. skipped_by_pattern rt h context = Inr False) hs) new"
proof (induction hs arbitrary: m w rs)
  case Nil
  then show ?case by simp
next
  case (Cons h hs)
  from Cons.prems have nr: "\<not> isl (skipped_by_pattern rt h context)"
    and rest: "\<forall>h \<in> set hs. \<not> isl (skipped_by_pattern rt h context)" by simp_all
  from nr obtain b where sk: "skipped_by_pattern rt h context = Inr b"
    by (cases "skipped_by_pattern rt h context") simp_all
  show ?case
  proof (cases b)
    case True
    with sk Cons.IH[OF rest, of m w rs] show ?thesis by simp
  next
    case False
    obtain o1 w1 where ex: "executeHookAction rt m h context w = (o1, w1)"
      by (cases "executeHookAction rt m h context w")
    have ea: "executed_as rt context h (hook_id h, o1)"
      unfolding executed_as_def using ex by (metis fst_conv snd_conv)
    show ?thesis
    proof (cases o1)
      case (Inl e)
      from Cons.IH[OF rest, of "log_error (''Hook '' @ quoted (hook_id h) @ '' execution failed'') (Some e) m"
          w1 "rs @ [(hook_id h, Inl e)]"]
      obtain m' w' new where
        "emit_hooks rt context hs
           (log_error (''Hook '' @ quoted (hook_id h) @ '' execution failed'') (Some e) m, w1,
            rs @ [(hook_id h, Inl e)]) = Inr (m', w', (rs @ [(hook_id h, Inl e)]) @ new)"
        and "list_all2 (executed_as rt context)
               (filter (\<lambda>h. skipped_by_pattern rt h context = Inr False) hs) new"
        by blast
      with sk False ex Inl ea show ?thesis
        by (intro exI[of _ m'] exI[of _ w'] exI[of _ "(hook_id h, Inl e) # new"]) simp
    next
      case (Inr r)
      let ?m1 = "if \<not> success r \<and> truthy (error_text r)
                 then log_error (''Hook '' @ quoted (hook_id h) @ '' execution failed: ''
                                    @ (case error_text r of Some e \<Rightarrow> e | None \<Rightarrow> [])) None m
                 else m"
      from Cons.IH[OF rest, of ?m1 w1 "rs @ [(hook_id h, Inr r)]"]
      obtain m' w' new where
        "emit_hooks rt context hs (?m1, w1, rs @ [(hook_id h, Inr r)])
           = Inr (m', w', (rs @ [(hook_id h, Inr r)]) @ new)"
        and "list_all2 (executed_as rt context)
               (filter (\<lambda>h. skipped_by_pattern rt h context = Inr False) hs) new"
        by blast
      with sk False ex Inr ea show ?thesis
        by (intro exI[of _ m'] exI[of _ w'] exI[of _ "(hook_id h, Inr r) # new"]) simp
    qed
  qed
qed

lemma emit_isolated:
  assumes "\<forall>h \<in> set (listHooks m). \<not> isl (skipped_by_pattern rt h context)"
  shows "\<exists>m' w' results. emit rt eventType context m w = Inr (m', w', results)"
proof -
  let ?hs = "filter (\<lambda>hook. enabled hook \<and> trigger_type (trigger hook) = eventType) (listHooks m)"
  from assms have "\<forall>h \<in> set ?hs. \<not> isl (skipped_by_pattern rt h context)" by simp
  from emit_hooks_isolated[OF this, of m w "[]"]
  obtain m1 w1 new where e: "emit_hooks rt context ?hs (m, w, []) = Inr (m1, w1, new)" by auto
  obtain m2 w2 where
    n: "notify_listeners eventType context (eventListeners m1 eventType) (m1, w1) = (m2, w2)"
    by (cases "notify_listeners eventType context (eventListeners m1 eventType) (m1, w1)")
  have "emit rt eventType context m w = Inr (m2, w2, new)"
    by (simp add: emit_def e n)
  then show ?thesis by blast
qed

text \<open>
  C3 at its failing input. One enabled \<open>send_message\<close> hook is registered for
  \<open>message_sent\<close>, and the message sender rejects with an error whose message is empty.
  \<open>emit\<close> returns normally and the hook's result is a failure, but nothing is written
  to the log: the failure is caught and not reported.
\<close>

theorem emit_unlogged_failure:
  "(case emit test_runtime ''message_sent'' empty_context manager_with_failing_hook [] of
      Inl e \<Rightarrow> False
    | Inr (m', w', results) \<Rightarrow>
        results = [(''failing-hook'', Inr \<lparr> success = False, output_text = None, error_text = Some [] \<rparr>)]
        \<and> logged m' = [])"
  by code_simp





section \<open>Configuration reloader\<close>

text \<open>
  C5, as amended. \<open>reloadAll\<close> starts all three category reloads whatever their
  outcomes and each failed refresh is logged, but the failure is thrown again by the
  category's reload and \<open>reloadAll\<close> rejects whenever at least one refresh fails; it
  resolves exactly when none fails. With managers that record their calls, all three
  refreshes are called, in the order specs, hooks, steering, under every pattern of
  failures, and the log holds one entry per category: an error entry for a failed
  refresh and an info entry otherwise.
\<close>

theorem reloadAll_rethrows:
  "(\<exists>o1 r1 w1 o2 r2 w2 o3 r3 w3.
       reloadSpecs r w = (o1, r1, w1) \<and> reloadHooks r1 w1 = (o2, r2, w2) \<and>
       reloadSteering r2 w2 = (o3, r3, w3) \<and>
       snd (reloadAll r w) = (r3, w3) \<and>
       isl (fst (reloadAll r w)) = (isl o1 \<or> isl o2 \<or> isl o3)) \<and>
   snd (snd (reloadAll (recording_reloader fails) calls)) = calls @ [cfg_specs, cfg_hooks, cfg_steering] \<and>
   isl (fst (reloadAll (recording_reloader fails) calls))
     = (fails cfg_specs \<or> fails cfg_hooks \<or> fails cfg_steering) \<and>
   set (reload_logged (fst (snd (reloadAll (recording_reloader fails) calls)))) =
     {if fails cfg_specs then LogError ''Failed to reload specs'' (Some (Error ''cannot refresh specs''))
      else LogInfo ''Specs reloaded'',
      if fails cfg_hooks then LogError ''Failed to reload hooks'' (Some (Error ''cannot refresh hooks''))
      else LogInfo ''Hooks reloaded'',
      if fails cfg_steering
      then LogError ''Failed to reload steering files'' (Some (Error ''cannot refresh steering''))
      else LogInfo ''Steering files reloaded''}"
proof -
  obtain o1 r1 w1 where a: "reloadSpecs r w = (o1, r1, w1)" by (cases "reloadSpecs r w")
  obtain o2 r2 w2 where b: "reloadHooks r1 w1 = (o2, r2, w2)" by (cases "reloadHooks r1 w1")
  obtain o3 r3 w3 where c: "reloadSteering r2 w2 = (o3, r3, w3)" by (cases "reloadSteering r2 w2")
  have "snd (reloadAll r w) = (r3, w3) \<and> isl (fst (reloadAll r w)) = (isl o1 \<or> isl o2 \<or> isl o3)"
    by (cases o1; cases o2; cases o3) (simp_all add: reloadAll_def a b c)
  with a b c have general: "\<exists>o1 r1 w1 o2 r2 w2 o3 r3 w3.
       reloadSpecs r w = (o1, r1, w1) \<and> reloadHooks r1 w1 = (o2, r2, w2) \<and>
       reloadSteering r2 w2 = (o3, r3, w3) \<and>
       snd (reloadAll r w) = (r3, w3) \<and>
       isl (fst (reloadAll r w)) = (isl o1 \<or> isl o2 \<or> isl o3)"
    by blast
  have recorded:
    "snd (snd (reloadAll (recording_reloader fails) calls)) = calls @ [cfg_specs, cfg_hooks, cfg_steering]"
    "isl (fst (reloadAll (recording_reloader fails) calls))
       = (fails cfg_specs \<or> fails cfg_hooks \<or> fails cfg_steering)"
    "set (reload_logged (fst (snd (reloadAll (recording_reloader fails) calls)))) =
     {if fails cfg_specs then LogError ''Failed to reload specs'' (Some (Error ''cannot refresh specs''))
      else LogInfo ''Specs reloaded'',
      if fails cfg_hooks then LogError ''Failed to reload hooks'' (Some (Error ''cannot refresh hooks''))
      else LogInfo ''Hooks reloaded'',
      if fails cfg_steering
      then LogError ''Failed to reload steering files'' (Some (Error ''cannot refresh steering''))
      else LogInfo ''Steering files reloaded''}"
    by (cases "fails cfg_specs"; cases "fails cfg_hooks"; cases "fails cfg_steering";
        simp add: reloadAll_def reloadSpecs_def reloadHooks_def reloadSteering_def reload_with_def
          recording_reloader_def recording_manager_def type_name_def)+
  from general recorded show ?thesis by blast
qed

text \<open>
  C5 as stated fails: when only the refresh of the specs fails, the other two refreshes
  are still called, and \<open>reloadAll\<close> rejects with the error of the specs refresh.
\<close>

theorem reloadAll_propagates_counterexample:
  "fst (reloadAll (recording_reloader (\<lambda>t. t = cfg_specs)) [])
     = Inl (Error ''cannot refresh specs'') \<and>
   snd (snd (reloadAll (recording_reloader (\<lambda>t. t = cfg_specs)) []))
     = [cfg_specs, cfg_hooks, cfg_steering]"
  by (simp add: reloadAll_def reloadSpecs_def reloadHooks_def reloadSteering_def reload_with_def
      recording_reloader_def recording_manager_def type_name_def)

section \<open>Configuration watcher: debouncing\<close>










































end
